theory Spec2Isabelle
  imports Complex_Main
begin

section \<open>Data model of \<open>qudi.util.datafitting\<close>\<close>

text \<open>
  The module uses three external libraries whose objects are carried as plain values here:
  an \<open>lmfit.Parameter\<close> is a record of the attributes the module reads or sets, an
  \<open>lmfit.Parameters\<close> table is an ordered dictionary from parameter names to parameters
  (an association list, insertion order kept as in a Python \<open>dict\<close>), and a float is either a
  real number or the not-a-number value \<open>np.nan\<close>.
\<close>

datatype number = Num real | NaN

record parameter =
  p_value :: number
  p_vary :: bool
  p_min :: real
  p_max :: real
  p_stderr :: "number option"

type_synonym parameters = "(string \<times> parameter) list"

text \<open>
  An \<open>lmfit.model.ModelResult\<close>: the fitted parameter table, the best values by name and the
  attribute \<open>high_res_best_fit\<close> that \<open>fit_data\<close> adds to it (absent on a fresh result).
\<close>

record fit_result =
  params :: parameters
  best_values :: "(string \<times> real) list"
  high_res_best_fit :: "(real list \<times> real list) option"

text \<open>
  The values that reach the module untyped (the entries of a dictionary given to
  \<open>from_dict\<close>, the keyword arguments of the constructor): \<open>None\<close>, a \<open>str\<close> or an
  \<open>lmfit.Parameters\<close>.
\<close>

datatype pyval = PNone | PStr string | PParams parameters

text \<open>
  Exceptions. Every \<open>assert\<close> statement of the module is one constructor of \<open>assertion\<close>,
  carrying what its message interpolates:
  \<^item> \<open>NameNotStr\<close>: \<open>FitConfiguration name must be str type.\<close>
  \<^item> \<open>NameEmpty\<close>: \<open>FitConfiguration name must be non-empty string.\<close>
  \<^item> \<open>InvalidModel m\<close>: \<open>Invalid fit model name encountered: "m".\<close>
  \<^item> \<open>ReservedName\<close>: \<open>"No Fit" is a reserved name for fit configs. Choose another.\<close>
  \<^item> \<open>InvalidEstimator e\<close>: \<open>Invalid fit model estimator encountered: "e"\<close>
  \<^item> \<open>InvalidParameters ns\<close>: \<open>Invalid model parameters encountered: ns\<close>
  \<^item> \<open>NotParametersType\<close>: \<open>Property custom_parameters must be of type <lmfit.Parameters>.\<close>
  \<^item> \<open>DictKeys\<close>: the message-less assertion on the key set in \<open>from_dict\<close>
  \<^item> \<open>AlreadyDefined n\<close>: \<open>Fit config "n" already defined.\<close>

  \<open>ValueError n\<close> is \<open>ValueError('No fit configuration found with name "n".')\<close>,
  \<open>KeyError k\<close> a failed dictionary subscription with key \<open>k\<close>, \<open>IndexError\<close> a sequence index
  out of range, \<open>TypeError\<close> an operation on a value of the wrong type and \<open>Raised msg\<close> any
  exception raised inside a fit model, an estimator or \<open>lmfit\<close>.
\<close>

datatype assertion =
    NameNotStr
  | NameEmpty
  | InvalidModel pyval
  | ReservedName
  | InvalidEstimator pyval
  | InvalidParameters "string set"
  | NotParametersType
  | DictKeys
  | AlreadyDefined string

datatype error =
    AssertionError assertion
  | ValueError string
  | KeyError string
  | IndexError
  | TypeError
  | Raised string

text \<open>
  A fit model instance (a subclass of \<open>FitModelBase\<close>, which lives outside this module):
  the dictionary of its estimators, \<open>make_params()\<close> (which the module allows to be \<open>None\<close>),
  \<open>fit(data, parameters, x=x)\<close> and \<open>eval(**best_values, x=x)\<close>. The calls into the model
  may raise. The registry \<open>_fit_models\<close> is a dictionary from model names to models; it is
  filled at import time from modules that are not part of this file, so every operation that
  reads it takes it as its first argument.
\<close>

record fit_model =
  estimators :: "(string \<times> (real list \<Rightarrow> real list \<Rightarrow> error + parameters)) list"
  make_params :: "parameters option"
  fit :: "real list \<Rightarrow> parameters option \<Rightarrow> real list \<Rightarrow> error + fit_result"
  eval :: "(string \<times> real) list \<Rightarrow> real list \<Rightarrow> error + real list"

type_synonym registry = "(string \<times> fit_model) list"

text \<open>
  Everything observable that an operation does besides returning: the Qt list-model calls and
  signals of \<open>FitConfigurationsModel\<close>, the two signals named in the source, entering and
  leaving \<open>with self._access_lock\<close>, and the call of the solver with its arguments.
\<close>

datatype event =
    BeginInsertRows nat nat
  | EndInsertRows
  | BeginRemoveRows nat nat
  | EndRemoveRows
  | sigFitConfigurationsChanged "string list"
  | sigLastFitResultChanged string "fit_result option"
  | Acquire
  | Release
  | ModelFit "real list" "parameters option" "real list"

section \<open>FitConfiguration\<close>

record FitConfiguration =
  name :: string
  model :: string
  estimator :: "string option"
  custom_parameters :: "parameters option"

definition available_estimators :: "registry \<Rightarrow> FitConfiguration \<Rightarrow> error + string list" where
  "available_estimators reg self =
     (case map_of reg (model self) of
        None \<Rightarrow> Inl (KeyError (model self))
      | Some mdl \<Rightarrow> Inr (map fst (estimators mdl)))"

definition default_parameters :: "registry \<Rightarrow> FitConfiguration \<Rightarrow> error + parameters" where
  "default_parameters reg self =
     (case map_of reg (model self) of
        None \<Rightarrow> Inl (KeyError (model self))
      | Some mdl \<Rightarrow> Inr (case make_params mdl of None \<Rightarrow> [] | Some ps \<Rightarrow> ps))"

text \<open>The setter of the property \<open>estimator\<close>.\<close>

definition set_estimator ::
  "registry \<Rightarrow> FitConfiguration \<Rightarrow> string option \<Rightarrow> error + FitConfiguration" where
  "set_estimator reg self v =
     (case v of
        None \<Rightarrow> Inr (self\<lparr>estimator := None\<rparr>)
      | Some e \<Rightarrow>
          (case available_estimators reg self of
             Inl err \<Rightarrow> Inl err
           | Inr es \<Rightarrow>
               if e \<in> set es then Inr (self\<lparr>estimator := Some e\<rparr>)
               else Inl (AssertionError (InvalidEstimator (PStr e)))))"

text \<open>
  The setter of the property \<open>custom_parameters\<close>. The value is an \<open>lmfit.Parameters\<close> by its
  type here, so the \<open>isinstance\<close> assertion that follows the name check cannot fail; the copy
  that is stored is the value itself.
\<close>

definition set_custom_parameters ::
  "registry \<Rightarrow> FitConfiguration \<Rightarrow> parameters option \<Rightarrow> error + FitConfiguration" where
  "set_custom_parameters reg self v =
     (case v of
        None \<Rightarrow> Inr (self\<lparr>custom_parameters := None\<rparr>)
      | Some ps \<Rightarrow>
          (case default_parameters reg self of
             Inl err \<Rightarrow> Inl err
           | Inr default_params \<Rightarrow>
               let invalid = set (map fst ps) - set (map fst default_params)
               in if invalid \<noteq> {} then Inl (AssertionError (InvalidParameters invalid))
                  else Inr (self\<lparr>custom_parameters := Some ps\<rparr>)))"

text \<open>
  \<open>FitConfiguration.__init__\<close>, with its four assertions in the order of the source and
  then the two setters. The arguments arrive untyped (\<open>from_dict\<close> passes the entries of its
  dictionary on as keyword arguments). A value that is not a \<open>str\<close> fails the first assertion
  as a name; as a model \<open>None\<close> is not a key of the registry and a \<open>Parameters\<close> table is
  not hashable; as an estimator a \<open>Parameters\<close> table is not a member of the tuple of
  estimator names; as custom parameters a \<open>str\<close> is iterated character by character by
  \<open>set(value)\<close> and fails the \<open>isinstance\<close> assertion when all its characters are
  parameter names.
\<close>

definition FitConfiguration_init ::
  "registry \<Rightarrow> pyval \<Rightarrow> pyval \<Rightarrow> pyval \<Rightarrow> pyval \<Rightarrow> error + FitConfiguration" where
  "FitConfiguration_init reg nm mdl est cp =
     (case nm of
        PStr n \<Rightarrow>
          if n = [] then Inl (AssertionError NameEmpty)
          else
            (case mdl of
               PParams _ \<Rightarrow> Inl TypeError
             | PNone \<Rightarrow> Inl (AssertionError (InvalidModel PNone))
             | PStr m \<Rightarrow>
                 if m \<notin> set (map fst reg) then Inl (AssertionError (InvalidModel (PStr m)))
                 else if n = ''No Fit'' then Inl (AssertionError ReservedName)
                 else
                   let self0 = \<lparr>name = n, model = m, estimator = None,
                                custom_parameters = None\<rparr>
                   in (case (case est of
                               PNone \<Rightarrow> set_estimator reg self0 None
                             | PStr e \<Rightarrow> set_estimator reg self0 (Some e)
                             | PParams ps \<Rightarrow>
                                 (case available_estimators reg self0 of
                                    Inl err \<Rightarrow> Inl err
                                  | Inr _ \<Rightarrow> Inl (AssertionError (InvalidEstimator est)))) of
                         Inl err \<Rightarrow> Inl err
                       | Inr self1 \<Rightarrow>
                           (case cp of
                              PNone \<Rightarrow> set_custom_parameters reg self1 None
                            | PParams ps \<Rightarrow> set_custom_parameters reg self1 (Some ps)
                            | PStr s \<Rightarrow>
                                (case default_parameters reg self1 of
                                   Inl err \<Rightarrow> Inl err
                                 | Inr default_params \<Rightarrow>
                                     let invalid = set (map (\<lambda>c. [c]) s)
                                                     - set (map fst default_params)
                                     in if invalid \<noteq> {}
                                        then Inl (AssertionError (InvalidParameters invalid))
                                        else Inl (AssertionError NotParametersType)))))
      | _ \<Rightarrow> Inl (AssertionError NameNotStr))"

text \<open>
  \<open>to_dict\<close> and \<open>from_dict\<close>. The serialisation of a parameter table is \<open>lmfit\<close>'s:
  \<open>dumps\<close> and \<open>loads\<close> are arguments, and \<open>loads\<close> may raise. \<open>from_dict\<close> assigns into
  the dictionary it is given, so it returns that dictionary as the call leaves it, next to
  its outcome.
\<close>

definition to_dict :: "(parameters \<Rightarrow> string) \<Rightarrow> FitConfiguration \<Rightarrow> (string \<rightharpoonup> pyval)" where
  "to_dict dumps self =
     [''name'' \<mapsto> PStr (name self),
      ''model'' \<mapsto> PStr (model self),
      ''estimator'' \<mapsto> (case estimator self of None \<Rightarrow> PNone | Some e \<Rightarrow> PStr e),
      ''custom_parameters'' \<mapsto>
         (case custom_parameters self of None \<Rightarrow> PNone | Some ps \<Rightarrow> PStr (dumps ps))]"

text \<open>
  The call \<open>cls(**dict_repr)\<close>: \<open>name\<close> and \<open>model\<close> are required arguments (a missing
  one is a \<open>TypeError\<close>), \<open>estimator\<close> and \<open>custom_parameters\<close> default to \<open>None\<close>.
  \<open>from_dict\<close> calls it only with a dictionary of exactly these four keys.
\<close>

definition cls_kwargs :: "registry \<Rightarrow> (string \<rightharpoonup> pyval) \<Rightarrow> error + FitConfiguration" where
  "cls_kwargs reg d =
     (case (d ''name'', d ''model'') of
        (Some nm, Some mdl) \<Rightarrow>
          FitConfiguration_init reg nm mdl
            (case d ''estimator'' of None \<Rightarrow> PNone | Some v \<Rightarrow> v)
            (case d ''custom_parameters'' of None \<Rightarrow> PNone | Some v \<Rightarrow> v)
      | _ \<Rightarrow> Inl TypeError)"

definition from_dict ::
  "registry \<Rightarrow> (string \<Rightarrow> error + parameters) \<Rightarrow> (string \<rightharpoonup> pyval)
     \<Rightarrow> (error + FitConfiguration) \<times> (string \<rightharpoonup> pyval)" where
  "from_dict reg loads dict_repr =
     (if dom dict_repr \<noteq> {''name'', ''model'', ''estimator'', ''custom_parameters''}
      then (Inl (AssertionError DictKeys), dict_repr)
      else
        (case dict_repr ''custom_parameters'' of
           Some (PStr s) \<Rightarrow>
             (case loads s of
                Inl err \<Rightarrow> (Inl err, dict_repr)
              | Inr ps \<Rightarrow>
                  let dict_repr' = dict_repr(''custom_parameters'' \<mapsto> PParams ps)
                  in (cls_kwargs reg dict_repr', dict_repr'))
         | _ \<Rightarrow> (cls_kwargs reg dict_repr, dict_repr)))"

section \<open>FitConfigurationsModel\<close>

record FitConfigurationsModel =
  fit_configurations :: "FitConfiguration list"

definition FitConfigurationsModel_init ::
  "FitConfiguration list option \<Rightarrow> FitConfigurationsModel" where
  "FitConfigurationsModel_init configurations =
     \<lparr>fit_configurations = (case configurations of None \<Rightarrow> [] | Some cs \<Rightarrow> cs)\<rparr>"

definition configuration_names :: "FitConfigurationsModel \<Rightarrow> string list" where
  "configuration_names self = map name (fit_configurations self)"

text \<open>\<open>tuple.index\<close>: the position of the first equal element, \<open>ValueError\<close> (here \<open>None\<close>)
  when there is none.\<close>

fun tuple_index :: "'a list \<Rightarrow> 'a \<Rightarrow> nat option" where
  "tuple_index [] v = None"
| "tuple_index (a # as) v =
     (if a = v then Some 0
      else (case tuple_index as v of None \<Rightarrow> None | Some i \<Rightarrow> Some (Suc i)))"

text \<open>\<open>list.pop(i)\<close> for an index in range, as the list that remains.\<close>

definition list_pop :: "'a list \<Rightarrow> nat \<Rightarrow> 'a list" where
  "list_pop xs i = take i xs @ drop (Suc i) xs"

text \<open>
  The operations of the collection return the outcome (an exception or the value), the
  collection after the call and the events of the call, so that what a failing call leaves
  behind is part of the result.
\<close>

definition add_configuration ::
  "registry \<Rightarrow> FitConfigurationsModel \<Rightarrow> string \<Rightarrow> string \<Rightarrow> string option
     \<Rightarrow> parameters option \<Rightarrow> (error + unit) \<times> FitConfigurationsModel \<times> event list" where
  "add_configuration reg self nm mdl est cp =
     (if nm \<in> set (configuration_names self)
      then (Inl (AssertionError (AlreadyDefined nm)), self, [])
      else if nm = ''No Fit'' then (Inl (AssertionError ReservedName), self, [])
      else
        (case FitConfiguration_init reg (PStr nm) (PStr mdl)
                (case est of None \<Rightarrow> PNone | Some e \<Rightarrow> PStr e)
                (case cp of None \<Rightarrow> PNone | Some ps \<Rightarrow> PParams ps) of
           Inl err \<Rightarrow> (Inl err, self, [])
         | Inr config \<Rightarrow>
             let new_row = length (fit_configurations self);
                 self' = self\<lparr>fit_configurations := fit_configurations self @ [config]\<rparr>
             in (Inr (), self',
                 [BeginInsertRows new_row new_row, EndInsertRows,
                  sigFitConfigurationsChanged (configuration_names self')])))"

definition remove_configuration ::
  "FitConfigurationsModel \<Rightarrow> string \<Rightarrow> (error + unit) \<times> FitConfigurationsModel \<times> event list"
  where
  "remove_configuration self nm =
     (case tuple_index (configuration_names self) nm of
        None \<Rightarrow> (Inr (), self, [])
      | Some row_index \<Rightarrow>
          let self' = self\<lparr>fit_configurations := list_pop (fit_configurations self) row_index\<rparr>
          in (Inr (), self',
              [BeginRemoveRows row_index row_index, EndRemoveRows,
               sigFitConfigurationsChanged (configuration_names self')]))"

definition get_configuration_by_name ::
  "FitConfigurationsModel \<Rightarrow> string \<Rightarrow> error + FitConfiguration" where
  "get_configuration_by_name self nm =
     (case tuple_index (configuration_names self) nm of
        None \<Rightarrow> Inl (ValueError nm)
      | Some row_index \<Rightarrow> Inr (fit_configurations self ! row_index))"

section \<open>FitContainer\<close>

record FitContainer =
  configuration_model :: FitConfigurationsModel
  last_fit_result :: "fit_result option"
  last_fit_config :: string

definition FitContainer_init :: "FitConfigurationsModel \<Rightarrow> FitContainer" where
  "FitContainer_init config_model =
     \<lparr>configuration_model = config_model, last_fit_result = None,
      last_fit_config = ''No Fit''\<rparr>"

text \<open>The property \<open>last_fit\<close>: the pair, read inside \<open>with self._access_lock\<close>.\<close>

definition last_fit :: "FitContainer \<Rightarrow> (string \<times> fit_result option) \<times> event list" where
  "last_fit self = ((last_fit_config self, last_fit_result self), [Acquire, Release])"

text \<open>
  \<open>np.linspace(start, stop, num)\<close> with the default \<open>endpoint=True\<close>, on exact reals:
  \<open>num\<close> samples \<open>start + i * step\<close> with \<open>step = (stop - start) / (num - 1)\<close>; a single
  sample is \<open>start\<close>. Rounding of floats is not part of the model.
\<close>

definition linspace :: "real \<Rightarrow> real \<Rightarrow> nat \<Rightarrow> real list" where
  "linspace start stop num =
     (if num = 1 then [start]
      else map (\<lambda>i. start + real i * ((stop - start) / real (num - 1))) [0..<num])"

text \<open>
  Lines 331 to 339 of \<open>fit_data\<close>: the parameters the solver starts from. The estimator is
  looked up in the dictionary of the model and called on \<open>(data, x)\<close>; every item of the
  custom parameters is then assigned into the table by name (\<open>parameters[name] = param\<close>:
  an existing key keeps its place, a new key goes to the end). Assigning into \<open>None\<close> (a
  model whose \<open>make_params()\<close> gave \<open>None\<close>) is a \<open>TypeError\<close>.
\<close>

fun setitem :: "('k \<times> 'v) list \<Rightarrow> 'k \<Rightarrow> 'v \<Rightarrow> ('k \<times> 'v) list" where
  "setitem [] k v = [(k, v)]"
| "setitem ((k', v') # d) k v = (if k' = k then (k', v) # d else (k', v') # setitem d k v)"

fun assign_items :: "parameters option \<Rightarrow> parameters \<Rightarrow> error + parameters option" where
  "assign_items parameters [] = Inr parameters"
| "assign_items None ((nm, param) # items) = Inl TypeError"
| "assign_items (Some ps) ((nm, param) # items) = assign_items (Some (setitem ps nm param)) items"

definition initial_parameters ::
  "fit_model \<Rightarrow> FitConfiguration \<Rightarrow> real list \<Rightarrow> real list \<Rightarrow> error + parameters option"
  where
  "initial_parameters mdl config x data =
     (case (case estimator config of
              None \<Rightarrow> Inr (make_params mdl)
            | Some e \<Rightarrow>
                (case map_of (estimators mdl) e of
                   None \<Rightarrow> Inl (KeyError e)
                 | Some estimator_fn \<Rightarrow>
                     (case estimator_fn data x of
                        Inl err \<Rightarrow> Inl err
                      | Inr ps \<Rightarrow> Inr (Some ps)))) of
        Inl err \<Rightarrow> Inl err
      | Inr parameters \<Rightarrow>
          (case custom_parameters config of
             None \<Rightarrow> Inr parameters
           | Some add_parameters \<Rightarrow> assign_items parameters add_parameters))"

text \<open>
  Lines 342 to 344: the curve \<open>(high_res_x, model.eval(**result.best_values, x=high_res_x))\<close>.
  \<open>x[0]\<close> on an empty sequence is an \<open>IndexError\<close>.
\<close>

definition high_res_curve ::
  "fit_model \<Rightarrow> fit_result \<Rightarrow> real list \<Rightarrow> error + (real list \<times> real list)" where
  "high_res_curve mdl result x =
     (if x = [] then Inl IndexError
      else
        let high_res_x = linspace (hd x) (last x) (length x * 10)
        in (case eval mdl (best_values result) high_res_x of
              Inl err \<Rightarrow> Inl err
            | Inr ys \<Rightarrow> Inr (high_res_x, ys)))"

text \<open>
  The body of \<open>with self._access_lock\<close> in \<open>fit_data\<close>: the outcome, the container as the
  body leaves it, and the events of the body.
\<close>

definition fit_data_locked ::
  "registry \<Rightarrow> FitContainer \<Rightarrow> string \<Rightarrow> real list \<Rightarrow> real list
     \<Rightarrow> (error + string \<times> fit_result option) \<times> FitContainer \<times> event list" where
  "fit_data_locked reg self fit_config x data =
     (if fit_config \<noteq> [] then
        (if fit_config = ''No Fit'' then
           let self' = self\<lparr>last_fit_result := None, last_fit_config := ''No Fit''\<rparr>
           in (Inr (last_fit_config self', last_fit_result self'), self',
               [sigLastFitResultChanged (last_fit_config self') (last_fit_result self')])
         else
           (case get_configuration_by_name (configuration_model self) fit_config of
              Inl err \<Rightarrow> (Inl err, self, [])
            | Inr config \<Rightarrow>
                (case map_of reg (model config) of
                   None \<Rightarrow> (Inl (KeyError (model config)), self, [])
                 | Some mdl \<Rightarrow>
                     (case initial_parameters mdl config x data of
                        Inl err \<Rightarrow> (Inl err, self, [])
                      | Inr parameters \<Rightarrow>
                          (case fit mdl data parameters x of
                             Inl err \<Rightarrow> (Inl err, self, [ModelFit data parameters x])
                           | Inr result \<Rightarrow>
                               (case high_res_curve mdl result x of
                                  Inl err \<Rightarrow> (Inl err, self, [ModelFit data parameters x])
                                | Inr curve \<Rightarrow>
                                    let result' = result\<lparr>high_res_best_fit := Some curve\<rparr>;
                                        self' = self\<lparr>last_fit_result := Some result',
                                                     last_fit_config := fit_config\<rparr>
                                    in (Inr (last_fit_config self', last_fit_result self'), self',
                                        [ModelFit data parameters x,
                                         sigLastFitResultChanged (last_fit_config self')
                                           (last_fit_result self')])))))))
      else (Inr ([], None), self, []))"

text \<open>
  \<open>fit_data\<close>: the lock is taken before the body and given back when the body is left, by
  return or by exception.
\<close>

definition fit_data ::
  "registry \<Rightarrow> FitContainer \<Rightarrow> string \<Rightarrow> real list \<Rightarrow> real list
     \<Rightarrow> (error + string \<times> fit_result option) \<times> FitContainer \<times> event list" where
  "fit_data reg self fit_config x data =
     (case fit_data_locked reg self fit_config x data of
        (outcome, self', events) \<Rightarrow> (outcome, self', Acquire # events @ [Release]))"

text \<open>
  \<open>formatted_result\<close>. The dictionary \<open>parameters_to_format\<close> that the loop builds has one
  entry per parameter of the result, with the keys \<open>value\<close>, \<open>error\<close> and \<open>unit\<close>.
  \<open>create_formatted_output\<close> is a function of \<open>qudi.util.units\<close>; it is an argument here.
\<close>

record format_entry =
  f_value :: number
  f_error :: "number option"
  f_unit :: string

definition parameters_to_format ::
  "fit_result \<Rightarrow> (string \<rightharpoonup> string) \<Rightarrow> (string \<times> format_entry) list" where
  "parameters_to_format fit_result parameters_units =
     map (\<lambda>(nm, param).
            let stderr = (if p_vary param then p_stderr param else None);
                stderr = (if p_vary param \<and> stderr = None then Some NaN else stderr)
            in (nm, \<lparr>f_value = p_value param, f_error = stderr,
                      f_unit = (case parameters_units nm of None \<Rightarrow> [] | Some u \<Rightarrow> u)\<rparr>))
         (params fit_result)"

definition formatted_result ::
  "((string \<times> format_entry) list \<Rightarrow> string) \<Rightarrow> fit_result option
     \<Rightarrow> (string \<rightharpoonup> string) option \<Rightarrow> string" where
  "formatted_result create_formatted_output fit_result parameters_units =
     (case fit_result of
        None \<Rightarrow> []
      | Some r \<Rightarrow>
          create_formatted_output
            (parameters_to_format r
               (case parameters_units of None \<Rightarrow> Map.empty | Some u \<Rightarrow> u)))"

section \<open>The lock and concurrent callers\<close>

text \<open>
  Modelled from the spec: \<open>qudi.util.mutex.Mutex\<close>, the type of \<open>_access_lock\<close>, is not part
  of this file; the spec calls it "one mutual-exclusion primitive guarding the orchestrator's
  last-fit pair". A schedule is a sequence of events, each tagged with the thread that performs
  it. It respects the lock when a thread acquires it only while no thread holds it and only
  the holder releases it. The first argument is the current holder.
\<close>

fun mutex_ok :: "nat option \<Rightarrow> (nat \<times> event) list \<Rightarrow> bool" where
  "mutex_ok holder [] = True"
| "mutex_ok holder ((t, e) # es) =
     (if e = Acquire then holder = None \<and> mutex_ok (Some t) es
      else if e = Release then holder = Some t \<and> mutex_ok None es
      else mutex_ok holder es)"

text \<open>All ways of merging the events of two threads, each keeping its own order.\<close>

fun interleavings :: "'a list \<Rightarrow> 'a list \<Rightarrow> 'a list list" where
  "interleavings [] ys = [ys]"
| "interleavings xs [] = [xs]"
| "interleavings (x # xs) (y # ys) =
     map ((#) x) (interleavings xs (y # ys)) @ map ((#) y) (interleavings (x # xs) ys)"

text \<open>
  Whether some call of the solver in a sequence of events of one thread happens while that
  thread holds the lock; the first argument says whether it holds the lock at the start.
\<close>

fun held_at_fit :: "bool \<Rightarrow> event list \<Rightarrow> bool" where
  "held_at_fit held [] = False"
| "held_at_fit held (Acquire # es) = held_at_fit True es"
| "held_at_fit held (Release # es) = held_at_fit False es"
| "held_at_fit held (ModelFit d p x # es) = (held \<or> held_at_fit held es)"
| "held_at_fit held (e # es) = held_at_fit held es"

text \<open>
  What a thread that runs \<open>last_fit\<close> reads while another thread runs \<open>fit_data\<close> on the
  same container. \<open>events_before reader e k schedule\<close> counts the events of the other thread
  that come before the first event \<open>e\<close> of the reader (\<open>k\<close> is the count so far). Before the
  first of the \<open>n\<close> events of the call of \<open>fit_data\<close> the container is as it was, after the
  last one it is as the call leaves it; in between the two assignments to the pair may be
  half done, and nothing is said about the container (\<open>None\<close>). The reader reads the pair
  between its \<open>Acquire\<close> and its \<open>Release\<close>: the pair it returns is \<open>last_fit\<close> of the
  container it finds, when the other thread does nothing in between.
\<close>

fun events_before :: "nat \<Rightarrow> event \<Rightarrow> nat \<Rightarrow> (nat \<times> event) list \<Rightarrow> nat option" where
  "events_before reader e k [] = None"
| "events_before reader e k ((t, e') # es) =
     (if t = reader then (if e' = e then Some k else events_before reader e k es)
      else events_before reader e (Suc k) es)"

definition container_seen ::
  "FitContainer \<Rightarrow> FitContainer \<Rightarrow> nat \<Rightarrow> nat \<Rightarrow> FitContainer option" where
  "container_seen before after n k =
     (if k = 0 then Some before else if k = n then Some after else None)"

definition pair_read ::
  "nat \<Rightarrow> FitContainer \<Rightarrow> FitContainer \<Rightarrow> nat \<Rightarrow> (nat \<times> event) list
     \<Rightarrow> (string \<times> fit_result option) option" where
  "pair_read reader before after n schedule =
     (case (events_before reader Acquire 0 schedule, events_before reader Release 0 schedule) of
        (Some k, Some k') \<Rightarrow>
          if k = k' then map_option (\<lambda>c. fst (last_fit c)) (container_seen before after n k)
          else None
      | _ \<Rightarrow> None)"

section \<open>What the constructor and the setters guarantee\<close>

text \<open>
  The conditions that \<open>FitConfiguration.__init__\<close> and the two setters assert, for a given
  registry: every configuration object satisfies them when it is created and after every
  assignment to \<open>estimator\<close> or \<open>custom_parameters\<close>.
\<close>

definition valid_configuration :: "registry \<Rightarrow> FitConfiguration \<Rightarrow> bool" where
  "valid_configuration reg c =
     (name c \<noteq> [] \<and> name c \<noteq> ''No Fit'' \<and>
      (case map_of reg (model c) of
         None \<Rightarrow> False
       | Some mdl \<Rightarrow>
           (case estimator c of None \<Rightarrow> True | Some e \<Rightarrow> e \<in> set (map fst (estimators mdl))) \<and>
           (case custom_parameters c of
              None \<Rightarrow> True
            | Some ps \<Rightarrow>
                set (map fst ps)
                  \<subseteq> set (map fst (case make_params mdl of None \<Rightarrow> [] | Some d \<Rightarrow> d)))))"

section \<open>A linear model for the concrete instances\<close>

text \<open>
  A registry with one model, \<open>Linear\<close>, with the parameters \<open>slope\<close> and \<open>offset\<close> and one
  estimator. Its solver is a stand-in that answers what a least-squares fit of
  \<open>y = 2 * x\<close> gives; its \<open>eval\<close> is the line.
\<close>

definition free_parameter :: "real \<Rightarrow> parameter" where
  "free_parameter v =
     \<lparr>p_value = Num v, p_vary = True, p_min = - 1000, p_max = 1000, p_stderr = None\<rparr>"

definition fixed_parameter :: "real \<Rightarrow> parameter" where
  "fixed_parameter v =
     \<lparr>p_value = Num v, p_vary = False, p_min = - 1000, p_max = 1000, p_stderr = None\<rparr>"

definition Linear :: fit_model where
  "Linear =
     \<lparr>estimators =
        [(''default'', \<lambda>data x. Inr [(''slope'', free_parameter 1), (''offset'', free_parameter (hd data))])],
      make_params = Some [(''slope'', free_parameter 1), (''offset'', free_parameter 0)],
      fit = (\<lambda>data ps x.
               Inr \<lparr>params = (case ps of None \<Rightarrow> [] | Some p \<Rightarrow> p),
                    best_values = [(''slope'', 2), (''offset'', 0)],
                    high_res_best_fit = None\<rparr>),
      eval = (\<lambda>vs xs.
                case (map_of vs ''slope'', map_of vs ''offset'') of
                  (Some a, Some b) \<Rightarrow> Inr (map (\<lambda>x. a * x + b) xs)
                | _ \<Rightarrow> Inl (Raised ''missing parameter''))\<rparr>"

definition registry0 :: registry where
  "registry0 = [(''Linear'', Linear)]"

definition L1 :: FitConfiguration where
  "L1 = \<lparr>name = ''L1'', model = ''Linear'', estimator = None, custom_parameters = None\<rparr>"

definition L2 :: FitConfiguration where
  "L2 = \<lparr>name = ''L2'', model = ''Linear'', estimator = Some ''default'',
         custom_parameters = Some [(''offset'', fixed_parameter 0)]\<rparr>"



definition container0 :: FitContainer where
  "container0 = FitContainer_init (FitConfigurationsModel_init (Some [L1, L2]))"


text \<open>
  A stand-in for \<open>lmfit\<close>'s serialisation that knows one table, the custom parameters of
  \<open>L2\<close>, under the text \<open>offset\<close>, and raises on every other text.
\<close>

definition dumps0 :: "parameters \<Rightarrow> string" where
  "dumps0 ps = (if ps = [(''offset'', fixed_parameter 0)] then ''offset'' else ''?'')"

definition loads0 :: "string \<Rightarrow> error + parameters" where
  "loads0 s =
     (if s = ''offset'' then Inr [(''offset'', fixed_parameter 0)] else Inl (Raised ''loads''))"

section \<open>Lemmas on the helpers\<close>

lemma tuple_index_None: "tuple_index xs v = None \<longleftrightarrow> v \<notin> set xs"
  by (induction xs) (auto split: option.splits)

lemma tuple_index_Some:
  "tuple_index xs v = Some i \<Longrightarrow> i < length xs \<and> xs ! i = v \<and> v \<notin> set (take i xs)"
proof (induction xs arbitrary: i)
  case Nil
  then show ?case by simp
next
  case (Cons a as)
  show ?case
  proof (cases "a = v")
    case True
    with Cons.prems show ?thesis by simp
  next
    case False
    with Cons.prems obtain j where j: "tuple_index as v = Some j" "i = Suc j"
      by (auto split: option.splits)
    from Cons.IH [OF j(1)] False j(2) show ?thesis by simp
  qed
qed

section \<open>Fitting with an unknown configuration name\<close>

text \<open>
  Claim C1. For every configuration name that is not empty, is not \<open>No Fit\<close> and is not the
  name of a configuration of the set, \<open>get_configuration_by_name\<close> raises and so does
  \<open>fit_data\<close>: the exception is the \<open>ValueError\<close> "No fit configuration found with name ..."
  (the lookup failure of the code, the \<open>LookupError\<close> of the spec's taxonomy). The container
  is the same after the failed call, no signal is emitted, the lock is given back, and
  \<open>last_fit\<close> reads the same pair as before.
\<close>

theorem fit_data_unknown_name:
  assumes "fit_config \<noteq> []" and "fit_config \<noteq> ''No Fit''"
    and "fit_config \<notin> set (configuration_names (configuration_model self))"
  shows "get_configuration_by_name (configuration_model self) fit_config
           = Inl (ValueError fit_config)
         \<and> fit_data reg self fit_config x data
           = (Inl (ValueError fit_config), self, [Acquire, Release])
         \<and> fst (last_fit (fst (snd (fit_data reg self fit_config x data)))) = fst (last_fit self)"
proof -
  from assms(3)
  have "tuple_index (configuration_names (configuration_model self)) fit_config = None"
    by (simp add: tuple_index_None)
  then have g: "get_configuration_by_name (configuration_model self) fit_config
                  = Inl (ValueError fit_config)"
    by (simp add: get_configuration_by_name_def)
  with assms(1,2) have "fit_data_locked reg self fit_config x data
                          = (Inl (ValueError fit_config), self, [])"
    by (simp add: fit_data_locked_def)
  then have f: "fit_data reg self fit_config x data
                  = (Inl (ValueError fit_config), self, [Acquire, Release])"
    by (simp add: fit_data_def)
  from g f show ?thesis by simp
qed

theorem fit_data_unknown_name_witness:
  "''L9'' \<noteq> [] \<and> ''L9'' \<noteq> ''No Fit''
   \<and> ''L9'' \<notin> set (configuration_names (configuration_model container0))
   \<and> get_configuration_by_name (configuration_model container0) ''L9'' = Inl (ValueError ''L9'')
   \<and> fit_data registry0 container0 ''L9'' [0, 1, 2, 3] [0, 2, 4, 6]
       = (Inl (ValueError ''L9''), container0, [Acquire, Release])"
  using fit_data_unknown_name [of "''L9''" container0 registry0 "[0, 1, 2, 3]" "[0, 2, 4, 6]"]
  by (simp add: container0_def FitContainer_init_def FitConfigurationsModel_init_def
      configuration_names_def L1_def L2_def)

section \<open>Fitting with \<open>No Fit\<close>\<close>

text \<open>
  Claim C3. Whatever the container holds and whatever \<open>x\<close> and the data are,
  \<open>fit_data('No Fit', x, data)\<close> sets the last-fit pair to \<open>('No Fit', None)\<close>, emits
  \<open>sigLastFitResultChanged\<close> with that pair and returns it; \<open>last_fit\<close> then reads it.
\<close>

theorem fit_data_no_fit:
  "fit_data reg self ''No Fit'' x data
     = (Inr (''No Fit'', None),
        self\<lparr>last_fit_result := None, last_fit_config := ''No Fit''\<rparr>,
        [Acquire, sigLastFitResultChanged ''No Fit'' None, Release])
   \<and> fst (last_fit (fst (snd (fit_data reg self ''No Fit'' x data)))) = (''No Fit'', None)"
  by (simp add: fit_data_def fit_data_locked_def last_fit_def)

section \<open>The errors reported by \<open>formatted_result\<close>\<close>

text \<open>
  Claim C9. \<open>formatted_result(None, units)\<close> is the empty string. For every result and every
  \<open>parameters_units\<close>, the default \<open>None\<close> (read as the empty dictionary) included, the text is
  \<open>create_formatted_output\<close> of a dictionary in which the error of each parameter is its
  \<open>stderr\<close> when the parameter varies and has one, \<open>np.nan\<close> when it varies and its \<open>stderr\<close>
  is \<open>None\<close>, and \<open>None\<close> when the parameter is fixed.
\<close>

theorem formatted_result_errors:
  "formatted_result create_formatted_output None units = []
   \<and> formatted_result create_formatted_output (Some r) units
       = create_formatted_output
           (parameters_to_format r (case units of None \<Rightarrow> Map.empty | Some u \<Rightarrow> u))
   \<and> formatted_result create_formatted_output (Some r) None
       = create_formatted_output (parameters_to_format r Map.empty)
   \<and> map (\<lambda>(nm, e). (nm, f_error e)) (parameters_to_format r u)
       = map (\<lambda>(nm, p). (nm, if p_vary p
                                then (case p_stderr p of None \<Rightarrow> Some NaN | Some s \<Rightarrow> Some s)
                                else None))
           (params r)"
  by (auto simp: formatted_result_def parameters_to_format_def Let_def split: option.splits)

section \<open>Lemmas on configurations and collections\<close>

lemma distinct_list_pop:
  assumes "distinct xs" and "i < length xs"
  shows "xs ! i \<notin> set (list_pop xs i)"
proof -
  from assms(2) have xs: "xs = take i xs @ xs ! i # drop (Suc i) xs"
    by (simp add: id_take_nth_drop)
  with assms(1) have "distinct (take i xs @ xs ! i # drop (Suc i) xs)" by simp
  then show ?thesis by (auto simp: list_pop_def)
qed

lemma map_of_registry:
  assumes "m \<in> set (map fst reg)"
  obtains mdl where "map_of reg m = Some mdl"
  using assms by (cases "map_of reg m") (auto simp: map_of_eq_None_iff)

lemma set_estimator_valid:
  assumes "set_estimator reg c v = Inr c'" and "map_of reg (model c) = Some fm"
  shows "c' = c\<lparr>estimator := v\<rparr>
         \<and> (case v of None \<Rightarrow> True | Some e \<Rightarrow> e \<in> set (map fst (estimators fm)))"
  using assms
  by (cases v) (simp_all add: set_estimator_def available_estimators_def split: if_splits)

lemma set_custom_parameters_valid:
  assumes "set_custom_parameters reg c v = Inr c'" and "map_of reg (model c) = Some fm"
  shows "c' = c\<lparr>custom_parameters := v\<rparr>
         \<and> (case v of
               None \<Rightarrow> True
             | Some ps \<Rightarrow>
                 set (map fst ps)
                   \<subseteq> set (map fst (case make_params fm of None \<Rightarrow> [] | Some d \<Rightarrow> d)))"
  using assms
  by (cases v)
    (simp_all add: set_custom_parameters_def default_parameters_def Let_def split: if_splits)

lemma FitConfiguration_init_valid:
  assumes "FitConfiguration_init reg nm mdl est cp = Inr c"
  shows "valid_configuration reg c"
proof -
  from assms obtain n m where nm: "nm = PStr n" and mdl: "mdl = PStr m"
    and n: "n \<noteq> []" "n \<noteq> ''No Fit''" and m: "m \<in> set (map fst reg)"
    by (auto simp: FitConfiguration_init_def split: pyval.splits if_splits)
  from m obtain fm where fm: "map_of reg m = Some fm" by (rule map_of_registry)
  from assms nm mdl n m fm show ?thesis
    by (cases est; cases cp)
      (simp_all add: FitConfiguration_init_def valid_configuration_def set_estimator_def
        set_custom_parameters_def available_estimators_def default_parameters_def Let_def
        split: if_splits sum.splits option.splits, (force | blast)+)
qed

lemma valid_configurations_no_fit:
  assumes "\<forall>c \<in> set (fit_configurations self). valid_configuration reg c"
  shows "''No Fit'' \<notin> set (configuration_names self)"
  using assms by (auto simp: configuration_names_def valid_configuration_def)

lemma add_configuration_keeps_valid:
  assumes "\<forall>c \<in> set (fit_configurations self). valid_configuration reg c"
    and "add_configuration reg self nm mdl est cp = (outcome, self', events)"
  shows "\<forall>c \<in> set (fit_configurations self'). valid_configuration reg c"
proof (cases "FitConfiguration_init reg (PStr nm) (PStr mdl)
                (case est of None \<Rightarrow> PNone | Some e \<Rightarrow> PStr e)
                (case cp of None \<Rightarrow> PNone | Some ps \<Rightarrow> PParams ps)")
  case (Inl err)
  with assms show ?thesis
    by (auto simp: add_configuration_def split: if_splits)
next
  case (Inr config)
  then have "valid_configuration reg config" by (rule FitConfiguration_init_valid)
  with assms Inr show ?thesis
    by (auto simp: add_configuration_def Let_def split: if_splits)
qed

section \<open>Removing a configuration\<close>

text \<open>
  What \<open>remove_configuration\<close> does on any collection. For a name that no configuration has
  it returns without error, leaves the collection as it is and emits nothing. For a name that
  some configuration has it removes the first configuration of that name and no other (the
  entries before and after keep their order), brackets the removal with \<open>beginRemoveRows\<close>
  and \<open>endRemoveRows\<close> for that row, and emits \<open>sigFitConfigurationsChanged\<close> with the
  names of the remaining configurations; when the names of the collection are pairwise
  distinct, the removed name is not among them.
\<close>

lemma remove_configuration_first_match:
  "(nm \<notin> set (configuration_names self) \<longrightarrow> remove_configuration self nm = (Inr (), self, []))
   \<and> (nm \<in> set (configuration_names self) \<longrightarrow>
        (\<exists>i < length (fit_configurations self).
           name (fit_configurations self ! i) = nm
           \<and> nm \<notin> set (map name (take i (fit_configurations self)))
           \<and> remove_configuration self nm
               = (Inr (),
                  self\<lparr>fit_configurations :=
                         take i (fit_configurations self) @ drop (Suc i) (fit_configurations self)\<rparr>,
                  [BeginRemoveRows i i, EndRemoveRows,
                   sigFitConfigurationsChanged
                     (map name (take i (fit_configurations self)
                                @ drop (Suc i) (fit_configurations self)))])
           \<and> (distinct (configuration_names self) \<longrightarrow>
                nm \<notin> set (map name (take i (fit_configurations self)
                                      @ drop (Suc i) (fit_configurations self))))))"
proof (intro conjI impI)
  assume "nm \<notin> set (configuration_names self)"
  then have "tuple_index (configuration_names self) nm = None"
    by (simp add: tuple_index_None)
  then show "remove_configuration self nm = (Inr (), self, [])"
    by (simp add: remove_configuration_def)
next
  let ?cs = "fit_configurations self"
  assume "nm \<in> set (configuration_names self)"
  then obtain i where i: "tuple_index (configuration_names self) nm = Some i"
    using tuple_index_None [of "configuration_names self" nm] by auto
  from tuple_index_Some [OF i]
  have len: "i < length ?cs" and at0: "map name ?cs ! i = nm"
    and before: "nm \<notin> set (map name (take i ?cs))"
    by (simp_all add: configuration_names_def take_map)
  from len at0 have at: "name (?cs ! i) = nm" by simp
  from i have run: "remove_configuration self nm
      = (Inr (), self\<lparr>fit_configurations := take i ?cs @ drop (Suc i) ?cs\<rparr>,
         [BeginRemoveRows i i, EndRemoveRows,
          sigFitConfigurationsChanged (map name (take i ?cs @ drop (Suc i) ?cs))])"
    by (simp add: remove_configuration_def Let_def list_pop_def configuration_names_def)
  have dist: "distinct (configuration_names self) \<longrightarrow>
                nm \<notin> set (map name (take i ?cs @ drop (Suc i) ?cs))"
  proof
    assume d: "distinct (configuration_names self)"
    from len have "i < length (map name ?cs)" by simp
    from distinct_list_pop [OF d [unfolded configuration_names_def] this] len at
    show "nm \<notin> set (map name (take i ?cs @ drop (Suc i) ?cs))"
      by (simp add: list_pop_def take_map drop_map)
  qed
  from len at before run dist
  show "\<exists>i < length ?cs. name (?cs ! i) = nm \<and> nm \<notin> set (map name (take i ?cs))
          \<and> remove_configuration self nm
              = (Inr (), self\<lparr>fit_configurations := take i ?cs @ drop (Suc i) ?cs\<rparr>,
                 [BeginRemoveRows i i, EndRemoveRows,
                  sigFitConfigurationsChanged (map name (take i ?cs @ drop (Suc i) ?cs))])
          \<and> (distinct (configuration_names self) \<longrightarrow>
                nm \<notin> set (map name (take i ?cs @ drop (Suc i) ?cs)))"
    by blast
qed

lemma remove_configuration_first_match_example:
  "''L9'' \<notin> set (configuration_names (FitConfigurationsModel_init (Some [L1, L2])))
   \<and> remove_configuration (FitConfigurationsModel_init (Some [L1, L2])) ''L9''
       = (Inr (), FitConfigurationsModel_init (Some [L1, L2]), [])
   \<and> ''L2'' \<in> set (configuration_names (FitConfigurationsModel_init (Some [L1, L2])))
   \<and> distinct (configuration_names (FitConfigurationsModel_init (Some [L1, L2])))
   \<and> remove_configuration (FitConfigurationsModel_init (Some [L1, L2])) ''L2''
       = (Inr (), \<lparr>fit_configurations = [L1]\<rparr>,
          [BeginRemoveRows 1 1, EndRemoveRows, sigFitConfigurationsChanged [''L1'']])"
  using remove_configuration_first_match [of "''L9''" "FitConfigurationsModel_init (Some [L1, L2])"]
    remove_configuration_first_match [of "''L2''" "FitConfigurationsModel_init (Some [L1, L2])"]
  by (simp add: FitConfigurationsModel_init_def configuration_names_def L1_def L2_def
      remove_configuration_def list_pop_def)

text \<open>
  Claim C7. Removing an absent name is a no-op without notification, and removing a present
  name takes out one entry and emits a tuple of names without it: by
  \<open>remove_configuration_first_match\<close> this holds on every collection whose names are
  pairwise distinct, which is what \<open>add_configuration\<close> asserts before it appends. The
  constructor of \<open>FitConfigurationsModel\<close> (and \<open>load_configs\<close>) take configurations without
  that check, so the code lets a collection with a repeated name come into being. Here
  \<open>add_configuration\<close> refuses a second \<open>L1\<close>, the constructor accepts \<open>[L1, L2, L1]\<close>,
  and on that collection \<open>remove_configuration('L1')\<close> removes the first entry only and
  emits a tuple of names that still holds \<open>L1\<close>.
\<close>

theorem remove_configuration_duplicate_names:
  "FitConfiguration_init registry0 (PStr ''L1'') (PStr ''Linear'') PNone PNone = Inr L1
   \<and> add_configuration registry0 (FitConfigurationsModel_init (Some [L1, L2])) ''L1''
        ''Linear'' None None
       = (Inl (AssertionError (AlreadyDefined ''L1'')),
          FitConfigurationsModel_init (Some [L1, L2]), [])
   \<and> configuration_names (FitConfigurationsModel_init (Some [L1, L2, L1]))
       = [''L1'', ''L2'', ''L1'']
   \<and> remove_configuration (FitConfigurationsModel_init (Some [L1, L2, L1])) ''L1''
       = (Inr (), \<lparr>fit_configurations = [L2, L1]\<rparr>,
          [BeginRemoveRows 0 0, EndRemoveRows, sigFitConfigurationsChanged [''L2'', ''L1'']])
   \<and> ''L1'' \<in> set [''L2'', ''L1'']"
  by (simp add: FitConfiguration_init_def registry0_def set_estimator_def
      set_custom_parameters_def L1_def L2_def remove_configuration_def add_configuration_def
      FitConfigurationsModel_init_def configuration_names_def list_pop_def)

section \<open>Adding a configuration under a reserved or used name\<close>

text \<open>
  Claim C8. Adding a configuration named \<open>No Fit\<close> fails on the assertion
  "No Fit is a reserved name" (a validation failure), and adding one under a name that a
  configuration of the collection already has fails on the assertion "Fit config already
  defined" (a name collision). Both are \<open>AssertionError\<close>s raised before anything is changed:
  the collection is the same afterwards and nothing is emitted. The first half is stated for
  collections in which no configuration is named \<open>No Fit\<close>; by
  \<open>valid_configurations_no_fit\<close> these are all collections of configurations that the
  constructor of \<open>FitConfiguration\<close> has accepted.
\<close>

theorem add_configuration_rejected:
  "(''No Fit'' \<notin> set (configuration_names self) \<longrightarrow>
      add_configuration reg self ''No Fit'' mdl est cp
        = (Inl (AssertionError ReservedName), self, []))
   \<and> (nm \<in> set (configuration_names self) \<longrightarrow>
        add_configuration reg self nm mdl est cp
          = (Inl (AssertionError (AlreadyDefined nm)), self, []))"
  by (simp add: add_configuration_def)

theorem add_configuration_rejected_witness:
  "''No Fit'' \<notin> set (configuration_names (FitConfigurationsModel_init (Some [L1, L2])))
   \<and> add_configuration registry0 (FitConfigurationsModel_init (Some [L1, L2])) ''No Fit''
        ''Linear'' None None
       = (Inl (AssertionError ReservedName), FitConfigurationsModel_init (Some [L1, L2]), [])
   \<and> ''L2'' \<in> set (configuration_names (FitConfigurationsModel_init (Some [L1, L2])))
   \<and> add_configuration registry0 (FitConfigurationsModel_init (Some [L1, L2])) ''L2''
        ''Linear'' None None
       = (Inl (AssertionError (AlreadyDefined ''L2'')),
          FitConfigurationsModel_init (Some [L1, L2]), [])"
  using add_configuration_rejected [of "FitConfigurationsModel_init (Some [L1, L2])" registry0
      "''Linear''" None None "''L2''"]
  by (simp add: FitConfigurationsModel_init_def configuration_names_def L1_def L2_def)

section \<open>The dictionary form of a configuration\<close>

lemma dom_to_dict:
  "dom (to_dict dumps c) = {''name'', ''model'', ''estimator'', ''custom_parameters''}"
  by (auto simp: to_dict_def)

lemma FitConfiguration_init_of_valid:
  assumes "valid_configuration reg c"
  shows "FitConfiguration_init reg (PStr (name c)) (PStr (model c))
           (case estimator c of None \<Rightarrow> PNone | Some e \<Rightarrow> PStr e)
           (case custom_parameters c of None \<Rightarrow> PNone | Some ps \<Rightarrow> PParams ps) = Inr c"
proof -
  from assms obtain fm where fm: "map_of reg (model c) = Some fm"
    by (auto simp: valid_configuration_def split: option.splits)
  then have m: "model c \<in> set (map fst reg)"
    by (metis map_of_eq_None_iff option.distinct(1) set_map)
  from assms fm m show ?thesis
    by (cases c; cases "estimator c"; cases "custom_parameters c")
      (auto simp: FitConfiguration_init_def valid_configuration_def set_estimator_def
        set_custom_parameters_def available_estimators_def default_parameters_def Let_def)
qed

text \<open>
  Claim C5. For a configuration that satisfies what the constructor and the setters assert
  (\<open>valid_configuration\<close>), and a serialisation of \<open>lmfit\<close> that reads back the custom
  parameters of the configuration from what it wrote for them, \<open>from_dict(to_dict(c))\<close>
  succeeds and returns a configuration equal to \<open>c\<close>: the same name, model and estimator, and
  the same custom parameters (\<open>None\<close> for \<open>None\<close>, the table read back from its text
  otherwise).
\<close>

theorem to_dict_from_dict:
  assumes "valid_configuration reg c"
    and "\<forall>ps. custom_parameters c = Some ps \<longrightarrow> loads (dumps ps) = Inr ps"
  shows "fst (from_dict reg loads (to_dict dumps c)) = Inr c"
proof (cases "custom_parameters c")
  case None
  then have "from_dict reg loads (to_dict dumps c)
               = (cls_kwargs reg (to_dict dumps c), to_dict dumps c)"
    by (simp add: from_dict_def dom_to_dict) (simp add: to_dict_def)
  moreover from None have "cls_kwargs reg (to_dict dumps c)
      = FitConfiguration_init reg (PStr (name c)) (PStr (model c))
          (case estimator c of None \<Rightarrow> PNone | Some e \<Rightarrow> PStr e)
          (case custom_parameters c of None \<Rightarrow> PNone | Some ps \<Rightarrow> PParams ps)"
    by (simp add: cls_kwargs_def to_dict_def)
  ultimately show ?thesis
    using FitConfiguration_init_of_valid [OF assms(1)] by simp
next
  case (Some ps)
  with assms(2) have l: "loads (dumps ps) = Inr ps" by simp
  let ?d = "(to_dict dumps c)(''custom_parameters'' \<mapsto> PParams ps)"
  from Some have cp: "to_dict dumps c ''custom_parameters'' = Some (PStr (dumps ps))"
    by (simp add: to_dict_def)
  from cp l have "from_dict reg loads (to_dict dumps c) = (cls_kwargs reg ?d, ?d)"
    by (simp add: from_dict_def dom_to_dict Let_def)
  moreover from Some have "cls_kwargs reg ?d
      = FitConfiguration_init reg (PStr (name c)) (PStr (model c))
          (case estimator c of None \<Rightarrow> PNone | Some e \<Rightarrow> PStr e)
          (case custom_parameters c of None \<Rightarrow> PNone | Some ps \<Rightarrow> PParams ps)"
    by (simp add: cls_kwargs_def to_dict_def)
  ultimately show ?thesis
    using FitConfiguration_init_of_valid [OF assms(1)] by simp
qed

theorem to_dict_from_dict_witness:
  "valid_configuration registry0 L2
   \<and> custom_parameters L2 = Some [(''offset'', fixed_parameter 0)]
   \<and> loads0 (dumps0 [(''offset'', fixed_parameter 0)]) = Inr [(''offset'', fixed_parameter 0)]
   \<and> to_dict dumps0 L2 ''custom_parameters'' = Some (PStr ''offset'')
   \<and> fst (from_dict registry0 loads0 (to_dict dumps0 L2)) = Inr L2"
  using to_dict_from_dict [of registry0 L2 loads0 dumps0]
  by (simp add: valid_configuration_def registry0_def L2_def Linear_def loads0_def dumps0_def
      to_dict_def)

text \<open>
  Claim C10, as it is stated, fails for a dictionary whose \<open>custom_parameters\<close> entry is a
  string but whose key set is not the four expected keys, and for a dictionary with the four
  keys whose string \<open>loads\<close> rejects: \<open>from_dict\<close> raises before the assignment, and the
  dictionary of the caller is as it was.
\<close>

theorem from_dict_unchanged_counterexample:
  "from_dict registry0 loads0 [''custom_parameters'' \<mapsto> PStr ''offset'']
     = (Inl (AssertionError DictKeys), [''custom_parameters'' \<mapsto> PStr ''offset''])
   \<and> from_dict registry0 loads0
        [''name'' \<mapsto> PStr ''L2'', ''model'' \<mapsto> PStr ''Linear'', ''estimator'' \<mapsto> PNone,
         ''custom_parameters'' \<mapsto> PStr ''{'']
     = (Inl (Raised ''loads''),
        [''name'' \<mapsto> PStr ''L2'', ''model'' \<mapsto> PStr ''Linear'', ''estimator'' \<mapsto> PNone,
         ''custom_parameters'' \<mapsto> PStr ''{''])"
proof -
  have "''name'' \<notin> {''custom_parameters''}" by simp
  then have "{''custom_parameters''} \<noteq> {''name'', ''model'', ''estimator'', ''custom_parameters''}"
    by blast
  then show ?thesis
    by (auto simp: from_dict_def loads0_def)
qed

text \<open>
  Claim C10, amended. For a dictionary with exactly the keys \<open>name\<close>, \<open>model\<close>,
  \<open>estimator\<close> and \<open>custom_parameters\<close> whose \<open>custom_parameters\<close> entry is a string that
  \<open>loads\<close> parses, \<open>from_dict\<close> replaces that entry in the dictionary of the caller by the
  parsed table before it constructs the configuration from the dictionary, so the dictionary
  is not left as it was. When the key set differs, or when \<open>loads\<close> raises on the string,
  \<open>from_dict\<close> raises and leaves the dictionary unchanged.
\<close>

theorem from_dict_assigns_parsed:
  "(dom d = {''name'', ''model'', ''estimator'', ''custom_parameters''}
      \<and> d ''custom_parameters'' = Some (PStr s) \<and> loads s = Inr ps \<longrightarrow>
        snd (from_dict reg loads d) = d(''custom_parameters'' \<mapsto> PParams ps)
        \<and> snd (from_dict reg loads d) \<noteq> d
        \<and> fst (from_dict reg loads d) = cls_kwargs reg (d(''custom_parameters'' \<mapsto> PParams ps)))
   \<and> (dom d \<noteq> {''name'', ''model'', ''estimator'', ''custom_parameters''} \<longrightarrow>
        from_dict reg loads d = (Inl (AssertionError DictKeys), d))
   \<and> (dom d = {''name'', ''model'', ''estimator'', ''custom_parameters''}
      \<and> d ''custom_parameters'' = Some (PStr s) \<and> loads s = Inl err \<longrightarrow>
        from_dict reg loads d = (Inl err, d))"
proof (intro conjI impI)
  assume a: "dom d = {''name'', ''model'', ''estimator'', ''custom_parameters''}
             \<and> d ''custom_parameters'' = Some (PStr s) \<and> loads s = Inr ps"
  then have run: "from_dict reg loads d
      = (cls_kwargs reg (d(''custom_parameters'' \<mapsto> PParams ps)),
         d(''custom_parameters'' \<mapsto> PParams ps))"
    by (simp add: from_dict_def Let_def)
  then show "snd (from_dict reg loads d) = d(''custom_parameters'' \<mapsto> PParams ps)" by simp
  from run show "fst (from_dict reg loads d)
                   = cls_kwargs reg (d(''custom_parameters'' \<mapsto> PParams ps))" by simp
  have "(d(''custom_parameters'' \<mapsto> PParams ps)) ''custom_parameters'' \<noteq> d ''custom_parameters''"
    using a by simp
  then have "d(''custom_parameters'' \<mapsto> PParams ps) \<noteq> d" by metis
  with run show "snd (from_dict reg loads d) \<noteq> d" by simp
next
  assume "dom d \<noteq> {''name'', ''model'', ''estimator'', ''custom_parameters''}"
  then show "from_dict reg loads d = (Inl (AssertionError DictKeys), d)"
    by (simp add: from_dict_def)
next
  assume "dom d = {''name'', ''model'', ''estimator'', ''custom_parameters''}
          \<and> d ''custom_parameters'' = Some (PStr s) \<and> loads s = Inl err"
  then show "from_dict reg loads d = (Inl err, d)"
    by (simp add: from_dict_def)
qed

theorem from_dict_assigns_parsed_witness:
  "dom (to_dict dumps0 L2) = {''name'', ''model'', ''estimator'', ''custom_parameters''}
   \<and> to_dict dumps0 L2 ''custom_parameters'' = Some (PStr ''offset'')
   \<and> loads0 ''offset'' = Inr [(''offset'', fixed_parameter 0)]
   \<and> snd (from_dict registry0 loads0 (to_dict dumps0 L2))
       = (to_dict dumps0 L2)(''custom_parameters'' \<mapsto> PParams [(''offset'', fixed_parameter 0)])
   \<and> snd (from_dict registry0 loads0 (to_dict dumps0 L2)) \<noteq> to_dict dumps0 L2
   \<and> dom [''custom_parameters'' \<mapsto> PStr ''offset'']
       \<noteq> {''name'', ''model'', ''estimator'', ''custom_parameters''}
   \<and> from_dict registry0 loads0 [''custom_parameters'' \<mapsto> PStr ''offset'']
       = (Inl (AssertionError DictKeys), [''custom_parameters'' \<mapsto> PStr ''offset''])
   \<and> loads0 ''{'' = Inl (Raised ''loads'')
   \<and> from_dict registry0 loads0 ((to_dict dumps0 L2)(''custom_parameters'' \<mapsto> PStr ''{''))
       = (Inl (Raised ''loads''), (to_dict dumps0 L2)(''custom_parameters'' \<mapsto> PStr ''{''))"
proof -
  let ?K = "{''name'', ''model'', ''estimator'', ''custom_parameters''}"
  let ?d1 = "to_dict dumps0 L2"
  let ?d2 = "[''custom_parameters'' \<mapsto> PStr ''offset'']"
  let ?d3 = "?d1(''custom_parameters'' \<mapsto> PStr ''{'')"
  let ?ps = "[(''offset'', fixed_parameter 0)]"
  have d1: "dom ?d1 = ?K" by (rule dom_to_dict)
  have cp: "?d1 ''custom_parameters'' = Some (PStr ''offset'')"
    by (simp add: to_dict_def L2_def dumps0_def)
  have l: "loads0 ''offset'' = Inr ?ps"
    by (simp add: loads0_def)
  have "''name'' \<notin> {''custom_parameters''}" by simp
  then have "{''custom_parameters''} \<noteq> ?K" by blast
  then have d2: "dom ?d2 \<noteq> ?K" by simp
  have l3: "loads0 ''{'' = Inl (Raised ''loads'')"
    by (simp add: loads0_def)
  have "''custom_parameters'' \<in> dom ?d1" using d1 by blast
  then have "dom ?d3 = dom ?d1" by auto
  with d1 have d3: "dom ?d3 = ?K" by simp
  have cp3: "?d3 ''custom_parameters'' = Some (PStr ''{'')" by simp
  note t1 = from_dict_assigns_parsed [of ?d1 "''offset''" loads0 ?ps registry0 "Raised []"]
  note t2 = from_dict_assigns_parsed [of ?d2 "[]" loads0 "[]" registry0 "Raised []"]
  note t3 = from_dict_assigns_parsed [of ?d3 "''{''" loads0 "[]" registry0 "Raised ''loads''"]
  from t1 d1 cp l
  have a: "snd (from_dict registry0 loads0 ?d1) = ?d1(''custom_parameters'' \<mapsto> PParams ?ps)
           \<and> snd (from_dict registry0 loads0 ?d1) \<noteq> ?d1"
    by blast
  from t2 d2 have b: "from_dict registry0 loads0 ?d2 = (Inl (AssertionError DictKeys), ?d2)"
    by blast
  from t3 d3 cp3 l3 have c: "from_dict registry0 loads0 ?d3 = (Inl (Raised ''loads''), ?d3)"
    by blast
  from d1 cp l a d2 b l3 c show ?thesis by blast
qed

section \<open>The parameters the solver starts from\<close>









section \<open>The high-resolution curve\<close>

lemma length_linspace: "length (linspace start stop num) = num"
  by (simp add: linspace_def)

lemma nth_linspace:
  assumes "i < num"
  shows "linspace start stop num ! i = start + real i * ((stop - start) / real (num - 1))"
  using assms by (auto simp: linspace_def)

lemma last_linspace:
  assumes "1 < num"
  shows "last (linspace start stop num) = stop"
proof -
  from assms have ne: "linspace start stop num \<noteq> []"
    using length_linspace [of start stop num] by auto
  from assms have r: "real (num - 1) \<noteq> 0" by simp
  have "last (linspace start stop num) = linspace start stop num ! (num - 1)"
    using ne by (simp add: last_conv_nth length_linspace)
  also have "\<dots> = start + real (num - 1) * ((stop - start) / real (num - 1))"
    using assms by (simp add: nth_linspace)
  also have "\<dots> = stop" using r by simp
  finally show ?thesis .
qed

lemma fit_data_success:
  assumes "fit_data reg self fit_config x data = (Inr (c, Some result), self', events)"
  obtains config mdl parameters r curve where
    "get_configuration_by_name (configuration_model self) fit_config = Inr config"
    "map_of reg (model config) = Some mdl"
    "initial_parameters mdl config x data = Inr parameters"
    "fit mdl data parameters x = Inr r"
    "high_res_curve mdl r x = Inr curve"
    "result = r\<lparr>high_res_best_fit := Some curve\<rparr>"
    "c = fit_config"
    "self' = self\<lparr>last_fit_result := Some result, last_fit_config := fit_config\<rparr>"
  using assms
  by (auto simp: fit_data_def fit_data_locked_def Let_def
      split: if_splits sum.splits option.splits prod.splits)

text \<open>
  Claim C4. When \<open>fit_data\<close> returns a result, the curve attached to it as
  \<open>high_res_best_fit\<close> has ten times as many samples as \<open>x\<close>; its abscissae start at \<open>x[0]\<close>,
  end at \<open>x[-1]\<close> and are evenly spaced in between (sample \<open>i\<close> is
  \<open>x[0] + i * (x[-1] - x[0]) / (n - 1)\<close> for \<open>n\<close> samples); its ordinates are \<open>eval\<close> of the
  model of the configuration at the best values of the result on these abscissae. A fit that
  returns a result has a non-empty \<open>x\<close>. The samples are exact reals here; the rounding of
  \<open>np.linspace\<close> on floats is outside the model.
\<close>

theorem fit_data_high_res_curve:
  assumes "fit_data reg self fit_config x data = (Inr (c, Some result), self', events)"
  shows "\<exists>high_res_x ys config mdl.
           high_res_best_fit result = Some (high_res_x, ys)
           \<and> x \<noteq> []
           \<and> length high_res_x = 10 * length x
           \<and> high_res_x ! 0 = hd x
           \<and> last high_res_x = last x
           \<and> (\<forall>i < length high_res_x.
                 high_res_x ! i
                   = hd x + real i * ((last x - hd x) / real (length high_res_x - 1)))
           \<and> get_configuration_by_name (configuration_model self) fit_config = Inr config
           \<and> map_of reg (model config) = Some mdl
           \<and> eval mdl (best_values result) high_res_x = Inr ys"
proof -
  from assms obtain config mdl parameters r curve where
    cfg: "get_configuration_by_name (configuration_model self) fit_config = Inr config"
    and mdl: "map_of reg (model config) = Some mdl"
    and curve: "high_res_curve mdl r x = Inr curve"
    and res: "result = r\<lparr>high_res_best_fit := Some curve\<rparr>"
    by (rule fit_data_success)
  let ?hx = "linspace (hd x) (last x) (length x * 10)"
  from curve obtain ys where x: "x \<noteq> []" and ev: "eval mdl (best_values r) ?hx = Inr ys"
    and c: "curve = (?hx, ys)"
    by (auto simp: high_res_curve_def Let_def split: if_splits sum.splits)
  from x have n: "1 < length x * 10" by (cases x) auto
  have len: "length ?hx = 10 * length x" by (simp add: length_linspace)
  from x have "0 < length x * 10" by simp
  from nth_linspace [OF this, of "hd x" "last x"] have first: "?hx ! 0 = hd x" by simp
  have lst: "last ?hx = last x" using n by (rule last_linspace)
  have nth: "\<forall>i < length ?hx. ?hx ! i = hd x + real i * ((last x - hd x) / real (length ?hx - 1))"
    by (simp add: length_linspace nth_linspace)
  from res c have hr: "high_res_best_fit result = Some (?hx, ys)" by simp
  from res ev have ev': "eval mdl (best_values result) ?hx = Inr ys" by simp
  from hr x len first lst nth cfg mdl ev' show ?thesis by blast
qed

theorem fit_data_high_res_curve_witness:
  "fit_data registry0 container0 ''L1'' [0, 1, 2, 3] [0, 2, 4, 6]
     = (Inr (''L1'',
             Some \<lparr>params = [(''slope'', free_parameter 1), (''offset'', free_parameter 0)],
                   best_values = [(''slope'', 2), (''offset'', 0)],
                   high_res_best_fit
                     = Some (linspace 0 3 40, map (\<lambda>x. 2 * x + 0) (linspace 0 3 40))\<rparr>),
        container0
          \<lparr>last_fit_result :=
             Some \<lparr>params = [(''slope'', free_parameter 1), (''offset'', free_parameter 0)],
                   best_values = [(''slope'', 2), (''offset'', 0)],
                   high_res_best_fit
                     = Some (linspace 0 3 40, map (\<lambda>x. 2 * x + 0) (linspace 0 3 40))\<rparr>,
           last_fit_config := ''L1''\<rparr>,
        [Acquire,
         ModelFit [0, 2, 4, 6]
           (Some [(''slope'', free_parameter 1), (''offset'', free_parameter 0)]) [0, 1, 2, 3],
         sigLastFitResultChanged ''L1''
           (Some \<lparr>params = [(''slope'', free_parameter 1), (''offset'', free_parameter 0)],
                  best_values = [(''slope'', 2), (''offset'', 0)],
                  high_res_best_fit
                    = Some (linspace 0 3 40, map (\<lambda>x. 2 * x + 0) (linspace 0 3 40))\<rparr>),
         Release])
   \<and> length (linspace 0 3 40) = 40
   \<and> linspace 0 3 40 ! 0 = 0
   \<and> last (linspace 0 3 40) = 3"
proof -
  let ?R = "\<lparr>params = [(''slope'', free_parameter 1), (''offset'', free_parameter 0)],
             best_values = [(''slope'', 2), (''offset'', 0)],
             high_res_best_fit
               = Some (linspace 0 3 40, map (\<lambda>x. 2 * x + 0) (linspace 0 3 40))\<rparr>"
  have run: "fit_data registry0 container0 ''L1'' [0, 1, 2, 3] [0, 2, 4, 6]
     = (Inr (''L1'', Some ?R),
        container0\<lparr>last_fit_result := Some ?R, last_fit_config := ''L1''\<rparr>,
        [Acquire,
         ModelFit [0, 2, 4, 6]
           (Some [(''slope'', free_parameter 1), (''offset'', free_parameter 0)]) [0, 1, 2, 3],
         sigLastFitResultChanged ''L1'' (Some ?R), Release])"
    by (simp add: fit_data_def fit_data_locked_def get_configuration_by_name_def
        container0_def FitContainer_init_def FitConfigurationsModel_init_def
        configuration_names_def L1_def L2_def registry0_def Linear_def initial_parameters_def
        high_res_curve_def Let_def)
  from fit_data_high_res_curve [OF run] obtain hx ys where
    h: "high_res_best_fit ?R = Some (hx, ys)"
    and l: "length hx = 10 * length [0, 1, 2, 3 :: real]"
    and f: "hx ! 0 = hd [0, 1, 2, 3 :: real]"
    and e: "last hx = last [0, 1, 2, 3 :: real]"
    by blast
  from h have "hx = linspace 0 3 40" by simp
  with l f e have "length (linspace 0 3 40) = 40 \<and> linspace 0 3 40 ! 0 = 0
                   \<and> last (linspace 0 3 40) = 3"
    by simp
  with run show ?thesis by simp
qed

section \<open>The lock during a fit\<close>

lemma fit_data_locked_no_lock_events:
  "Acquire \<notin> set (snd (snd (fit_data_locked reg self fit_config x data)))
   \<and> Release \<notin> set (snd (snd (fit_data_locked reg self fit_config x data)))"
  by (simp add: fit_data_locked_def Let_def split: sum.splits option.splits)

lemma fit_data_events:
  "snd (snd (fit_data reg self fit_config x data))
     = Acquire # snd (snd (fit_data_locked reg self fit_config x data)) @ [Release]"
  by (simp add: fit_data_def split: prod.splits)

lemma held_at_fit_body:
  assumes "Acquire \<notin> set body" and "Release \<notin> set body"
  shows "held_at_fit True (body @ [Release]) \<longleftrightarrow> (\<exists>d p y. ModelFit d p y \<in> set body)"
  using assms
proof (induction body)
  case Nil
  then show ?case by simp
next
  case (Cons e es)
  then show ?case by (cases e) auto
qed

lemma mutex_holder_runs_first:
  assumes "Acquire \<notin> set body" and "Release \<notin> set body" and "t \<noteq> u"
    and "s \<in> set (interleavings (map (Pair t) (body @ [Release])) ((u, Acquire) # rest))"
    and "mutex_ok (Some t) s"
  shows "s = map (Pair t) (body @ [Release]) @ (u, Acquire) # rest"
  using assms
proof (induction body arbitrary: s)
  case Nil
  then show ?case by auto
next
  case (Cons e es)
  from Cons.prems(4) consider
      s' where "s = (t, e) # s'"
        "s' \<in> set (interleavings (map (Pair t) (es @ [Release])) ((u, Acquire) # rest))"
    | s' where "s = (u, Acquire) # s'"
    by auto
  then show ?case
  proof cases
    case 1
    from Cons.prems(1,2) have e: "e \<noteq> Acquire" "e \<noteq> Release" by auto
    with Cons.prems(5) 1(1) have "mutex_ok (Some t) s'" by simp
    from Cons.IH [OF _ _ Cons.prems(3) 1(2) this] Cons.prems(1,2) 1(1)
    show ?thesis by simp
  next
    case 2
    with Cons.prems(5) show ?thesis by simp
  qed
qed

lemma mutex_reader_first:
  assumes "t \<noteq> u"
    and "s \<in> set (interleavings ((t, Acquire) # fs) [(u, Release)])"
    and "mutex_ok (Some u) s"
  shows "s = (u, Release) # (t, Acquire) # fs"
  using assms by auto

lemma events_before_other:
  assumes "\<forall>(t, e') \<in> set fs. t \<noteq> reader"
  shows "events_before reader e k (fs @ rest) = events_before reader e (k + length fs) rest"
  using assms by (induction fs arbitrary: k) auto

lemma pair_read_after:
  assumes "reader \<noteq> t" and "fs \<noteq> []"
  shows "pair_read reader before after (length fs)
           (map (Pair t) fs @ [(reader, Acquire), (reader, Release)])
         = Some (fst (last_fit after))"
proof -
  have o: "\<forall>(t', e') \<in> set (map (Pair t) fs). t' \<noteq> reader" using assms(1) by auto
  have "events_before reader Acquire 0 (map (Pair t) fs @ [(reader, Acquire), (reader, Release)])
          = Some (length fs)"
    using events_before_other [OF o, of Acquire 0] by simp
  moreover
  have "events_before reader Release 0 (map (Pair t) fs @ [(reader, Acquire), (reader, Release)])
          = Some (length fs)"
    using events_before_other [OF o, of Release 0] by simp
  ultimately show ?thesis using assms(2) by (simp add: pair_read_def container_seen_def)
qed

lemma pair_read_before:
  "pair_read reader before after n ((reader, Acquire) # (reader, Release) # rest)
     = Some (fst (last_fit before))"
  by (simp add: pair_read_def container_seen_def)

lemma fit_data_L1_events:
  "snd (snd (fit_data registry0 container0 ''L1'' [0, 1, 2, 3] [0, 2, 4, 6]))
     = [Acquire,
        ModelFit [0, 2, 4, 6]
          (Some [(''slope'', free_parameter 1), (''offset'', free_parameter 0)]) [0, 1, 2, 3],
        sigLastFitResultChanged ''L1''
          (Some \<lparr>params = [(''slope'', free_parameter 1), (''offset'', free_parameter 0)],
                 best_values = [(''slope'', 2), (''offset'', 0)],
                 high_res_best_fit
                   = Some (linspace 0 3 40, map (\<lambda>x. 2 * x + 0) (linspace 0 3 40))\<rparr>),
        Release]"
  by (simp add: fit_data_def fit_data_locked_def get_configuration_by_name_def
      container0_def FitContainer_init_def FitConfigurationsModel_init_def
      configuration_names_def L1_def L2_def registry0_def Linear_def initial_parameters_def
      high_res_curve_def Let_def)

lemma fit_data_L1_state:
  "fst (snd (fit_data registry0 container0 ''L1'' [0, 1, 2, 3] [0, 2, 4, 6]))
     = container0
         \<lparr>last_fit_result :=
            Some \<lparr>params = [(''slope'', free_parameter 1), (''offset'', free_parameter 0)],
                  best_values = [(''slope'', 2), (''offset'', 0)],
                  high_res_best_fit
                    = Some (linspace 0 3 40, map (\<lambda>x. 2 * x + 0) (linspace 0 3 40))\<rparr>,
          last_fit_config := ''L1''\<rparr>"
  by (simp add: fit_data_def fit_data_locked_def get_configuration_by_name_def
      container0_def FitContainer_init_def FitConfigurationsModel_init_def
      configuration_names_def L1_def L2_def registry0_def Linear_def initial_parameters_def
      high_res_curve_def Let_def)

text \<open>
  Claim C2, as it is stated, fails: the whole body of \<open>fit_data\<close>, the call of the solver
  included, is inside \<open>with self._access_lock\<close>. In the fit of \<open>L1\<close> the solver is called
  while the lock is held, and a schedule in which another thread runs \<open>last_fit\<close> between
  the call of the solver and the end of the fit does not respect the lock.
\<close>

theorem fit_data_lock_held_counterexample:
  "held_at_fit False (snd (snd (fit_data registry0 container0 ''L1'' [0, 1, 2, 3] [0, 2, 4, 6])))
   \<and> \<not> mutex_ok None
         (map (Pair 0)
            (take 2 (snd (snd (fit_data registry0 container0 ''L1'' [0, 1, 2, 3] [0, 2, 4, 6]))))
          @ map (Pair 1) (snd (last_fit container0))
          @ map (Pair 0)
              (drop 2 (snd (snd (fit_data registry0 container0 ''L1'' [0, 1, 2, 3] [0, 2, 4, 6])))))"
  by (simp add: fit_data_L1_events last_fit_def)

text \<open>
  Claim C2, amended. Every execution of \<open>fit_data\<close> acquires the lock on entry and releases
  it when the call is left, and neither acquires nor releases it in between: the lock is held
  for the whole call, so every call of the solver happens under it. Of the schedules of one
  thread in \<open>fit_data\<close> and another in \<open>last_fit\<close> on the same container, the only ones
  that respect the lock are the two in which one call is over before the other begins. In the
  one the reader is first and reads the pair the container had before the fit; in the other
  it waits for the end of the fit and reads the pair the fit has left.
\<close>

theorem fit_data_holds_lock_throughout:
  "snd (snd (fit_data reg self fit_config x data))
     = Acquire # snd (snd (fit_data_locked reg self fit_config x data)) @ [Release]
   \<and> Acquire \<notin> set (snd (snd (fit_data_locked reg self fit_config x data)))
   \<and> Release \<notin> set (snd (snd (fit_data_locked reg self fit_config x data)))
   \<and> (ModelFit d p y \<in> set (snd (snd (fit_data reg self fit_config x data))) \<longrightarrow>
        held_at_fit False (snd (snd (fit_data reg self fit_config x data))))
   \<and> (\<forall>schedule \<in> set (interleavings
                           (map (Pair 0) (snd (snd (fit_data reg self fit_config x data))))
                           (map (Pair 1) (snd (last_fit self)))).
         mutex_ok None schedule \<longrightarrow>
           (schedule = map (Pair 1) (snd (last_fit self))
                         @ map (Pair 0) (snd (snd (fit_data reg self fit_config x data)))
            \<and> pair_read 1 self (fst (snd (fit_data reg self fit_config x data)))
                  (length (snd (snd (fit_data reg self fit_config x data)))) schedule
                = Some (last_fit_config self, last_fit_result self))
           \<or> (schedule = map (Pair 0) (snd (snd (fit_data reg self fit_config x data)))
                            @ map (Pair 1) (snd (last_fit self))
               \<and> pair_read 1 self (fst (snd (fit_data reg self fit_config x data)))
                     (length (snd (snd (fit_data reg self fit_config x data)))) schedule
                   = Some (last_fit_config (fst (snd (fit_data reg self fit_config x data))),
                           last_fit_result (fst (snd (fit_data reg self fit_config x data))))))"
proof -
  let ?body = "snd (snd (fit_data_locked reg self fit_config x data))"
  let ?F = "snd (snd (fit_data reg self fit_config x data))"
  let ?self' = "fst (snd (fit_data reg self fit_config x data))"
  let ?R = "[(1 :: nat, Acquire), (1, Release)]"
  have ev: "?F = Acquire # ?body @ [Release]" by (rule fit_data_events)
  have nl: "Acquire \<notin> set ?body" "Release \<notin> set ?body"
    using fit_data_locked_no_lock_events [of reg self fit_config x data] by simp_all
  have held: "ModelFit d p y \<in> set ?F \<longrightarrow> held_at_fit False ?F"
  proof
    assume "ModelFit d p y \<in> set ?F"
    with ev have "ModelFit d p y \<in> set ?body" by simp
    with held_at_fit_body [OF nl] have "held_at_fit True (?body @ [Release])" by blast
    with ev show "held_at_fit False ?F" by simp
  qed
  from ev have ne: "?F \<noteq> []" by simp
  have rb: "pair_read 1 self ?self' (length ?F) (?R @ map (Pair 0) ?F)
              = Some (last_fit_config self, last_fit_result self)"
    using pair_read_before [of 1 self ?self' "length ?F" "map (Pair 0) ?F"]
    by (simp add: last_fit_def)
  have ra: "pair_read 1 self ?self' (length ?F) (map (Pair 0) ?F @ ?R)
              = Some (last_fit_config ?self', last_fit_result ?self')"
    using pair_read_after [OF _ ne, of 1 0 self ?self'] by (simp add: last_fit_def)
  have sched: "\<forall>schedule \<in> set (interleavings (map (Pair 0) ?F) ?R).
      mutex_ok None schedule \<longrightarrow>
        schedule = map (Pair 0) ?F @ ?R \<or> schedule = ?R @ map (Pair 0) ?F"
  proof (intro ballI impI)
    fix s
    assume mem: "s \<in> set (interleavings (map (Pair 0) ?F) ?R)" and ok: "mutex_ok None s"
    let ?F' = "map (Pair (0 :: nat)) (?body @ [Release])"
    from ev have F: "map (Pair (0 :: nat)) ?F = (0, Acquire) # ?F'" by simp
    from mem F consider
        s' where "s = (0, Acquire) # s'" "s' \<in> set (interleavings ?F' ?R)"
      | s' where "s = (1, Acquire) # s'"
          "s' \<in> set (interleavings ((0, Acquire) # ?F') [(1, Release)])"
      by auto
    then show "s = map (Pair 0) ?F @ ?R \<or> s = ?R @ map (Pair 0) ?F"
    proof cases
      case 1
      from ok 1(1) have "mutex_ok (Some 0) s'" by simp
      from mutex_holder_runs_first [OF nl _ 1(2) this] 1(1) F show ?thesis by simp
    next
      case 2
      from ok 2(1) have "mutex_ok (Some 1) s'" by simp
      from mutex_reader_first [OF _ 2(2) this] 2(1) F show ?thesis by simp
    qed
  qed
  have R: "map (Pair (1 :: nat)) (snd (last_fit self)) = ?R" by (simp add: last_fit_def)
  have both: "\<forall>schedule \<in> set (interleavings (map (Pair 0) ?F)
                                    (map (Pair 1) (snd (last_fit self)))).
      mutex_ok None schedule \<longrightarrow>
        (schedule = map (Pair 1) (snd (last_fit self)) @ map (Pair 0) ?F
         \<and> pair_read 1 self ?self' (length ?F) schedule
             = Some (last_fit_config self, last_fit_result self))
        \<or> (schedule = map (Pair 0) ?F @ map (Pair 1) (snd (last_fit self))
            \<and> pair_read 1 self ?self' (length ?F) schedule
                = Some (last_fit_config ?self', last_fit_result ?self'))"
    unfolding R using sched rb ra by metis
  from ev nl held both show ?thesis by blast
qed

theorem fit_data_holds_lock_throughout_witness:
  "ModelFit [0, 2, 4, 6] (Some [(''slope'', free_parameter 1), (''offset'', free_parameter 0)])
       [0, 1, 2, 3]
     \<in> set (snd (snd (fit_data registry0 container0 ''L1'' [0, 1, 2, 3] [0, 2, 4, 6])))
   \<and> held_at_fit False
        (snd (snd (fit_data registry0 container0 ''L1'' [0, 1, 2, 3] [0, 2, 4, 6])))
   \<and> map (Pair 0) (snd (snd (fit_data registry0 container0 ''L1'' [0, 1, 2, 3] [0, 2, 4, 6])))
        @ map (Pair 1) (snd (last_fit container0))
       \<in> set (interleavings
                (map (Pair 0)
                   (snd (snd (fit_data registry0 container0 ''L1'' [0, 1, 2, 3] [0, 2, 4, 6]))))
                (map (Pair 1) (snd (last_fit container0))))
   \<and> mutex_ok None
        (map (Pair 0) (snd (snd (fit_data registry0 container0 ''L1'' [0, 1, 2, 3] [0, 2, 4, 6])))
         @ map (Pair 1) (snd (last_fit container0)))
   \<and> pair_read 1 container0
        (fst (snd (fit_data registry0 container0 ''L1'' [0, 1, 2, 3] [0, 2, 4, 6])))
        (length (snd (snd (fit_data registry0 container0 ''L1'' [0, 1, 2, 3] [0, 2, 4, 6]))))
        (map (Pair 0) (snd (snd (fit_data registry0 container0 ''L1'' [0, 1, 2, 3] [0, 2, 4, 6])))
         @ map (Pair 1) (snd (last_fit container0)))
       = Some (''L1'',
               Some \<lparr>params = [(''slope'', free_parameter 1), (''offset'', free_parameter 0)],
                     best_values = [(''slope'', 2), (''offset'', 0)],
                     high_res_best_fit
                       = Some (linspace 0 3 40, map (\<lambda>x. 2 * x + 0) (linspace 0 3 40))\<rparr>)
   \<and> map (Pair 1) (snd (last_fit container0))
        @ map (Pair 0) (snd (snd (fit_data registry0 container0 ''L1'' [0, 1, 2, 3] [0, 2, 4, 6])))
       \<in> set (interleavings
                (map (Pair 0)
                   (snd (snd (fit_data registry0 container0 ''L1'' [0, 1, 2, 3] [0, 2, 4, 6]))))
                (map (Pair 1) (snd (last_fit container0))))
   \<and> mutex_ok None
        (map (Pair 1) (snd (last_fit container0))
         @ map (Pair 0) (snd (snd (fit_data registry0 container0 ''L1'' [0, 1, 2, 3] [0, 2, 4, 6]))))
   \<and> pair_read 1 container0
        (fst (snd (fit_data registry0 container0 ''L1'' [0, 1, 2, 3] [0, 2, 4, 6])))
        (length (snd (snd (fit_data registry0 container0 ''L1'' [0, 1, 2, 3] [0, 2, 4, 6]))))
        (map (Pair 1) (snd (last_fit container0))
         @ map (Pair 0) (snd (snd (fit_data registry0 container0 ''L1'' [0, 1, 2, 3] [0, 2, 4, 6]))))
       = Some (''No Fit'', None)"
proof -
  have c0: "last_fit_config container0 = ''No Fit''" "last_fit_result container0 = None"
    by (simp_all add: container0_def FitContainer_init_def)
  from fit_data_holds_lock_throughout [of registry0 container0 "''L1''" "[0, 1, 2, 3]"
      "[0, 2, 4, 6]" "[0, 2, 4, 6]"
      "Some [(''slope'', free_parameter 1), (''offset'', free_parameter 0)]" "[0, 1, 2, 3]"]
  have held: "ModelFit [0, 2, 4, 6]
                (Some [(''slope'', free_parameter 1), (''offset'', free_parameter 0)]) [0, 1, 2, 3]
              \<in> set (snd (snd (fit_data registry0 container0 ''L1'' [0, 1, 2, 3] [0, 2, 4, 6])))
              \<longrightarrow> held_at_fit False
                    (snd (snd (fit_data registry0 container0 ''L1'' [0, 1, 2, 3] [0, 2, 4, 6])))"
    by blast
  have called: "ModelFit [0, 2, 4, 6]
                (Some [(''slope'', free_parameter 1), (''offset'', free_parameter 0)]) [0, 1, 2, 3]
              \<in> set (snd (snd (fit_data registry0 container0 ''L1'' [0, 1, 2, 3] [0, 2, 4, 6])))"
    by (simp add: fit_data_L1_events)
  from held called show ?thesis
    by (simp add: fit_data_L1_events fit_data_L1_state last_fit_def pair_read_def
        container_seen_def c0)
qed

end
